theory Spec2Isabelle
  imports Main "HOL-Library.Word"
begin

section \<open>Package protect: data model\<close>

text \<open>
  Go strings are byte sequences; they are modelled as \<open>string\<close> (a list of 8-bit
  characters). A \<open>net.IP\<close> is a byte slice.
\<close>

type_synonym IP = "8 word list"

text \<open>
  \<open>net.AddrError\<close>, the only error \<open>net.SplitHostPort\<close> returns: the reason and the
  offending address.
\<close>

datatype AddrError = AddrError (Err: string) (Addr: string)

text \<open>
  The error values that flow through the package:
  \<^item> \<open>ErrNoResolvers\<close> is \<open>errors.New("no resolvers")\<close>;
  \<^item> \<open>ErrSplit e\<close> is the error of \<open>net.SplitHostPort\<close>, passed on unchanged;
  \<^item> \<open>ErrCannotParse h\<close> is \<open>fmt.Errorf("cannot parse resolver-ip: %s", h)\<close>;
  \<^item> \<open>ErrNet m\<close> stands for any error produced inside package \<open>net\<close>
    (by \<open>RawConn.Control\<close> or \<open>Dialer.DialContext\<close>).
\<close>

datatype error =
    ErrNoResolvers
  | ErrSplit AddrError
  | ErrCannotParse string
  | ErrNet string

text \<open>
  The functions of Go's package \<open>net\<close> that \<open>scan\<close> and \<open>replaceIP\<close> call. They are
  not part of this package, so the embedding takes them as a parameter; \<open>gonet\<close> below is
  the instance that follows the Go 1.17 standard library.
\<close>

record netpkg =
  ParseIP :: "string \<Rightarrow> IP option"
  To4 :: "IP \<Rightarrow> IP option"
  SplitHostPort :: "string \<Rightarrow> AddrError + string \<times> string"
  JoinHostPort :: "string \<Rightarrow> string \<Rightarrow> string"

section \<open>scan and replaceIP\<close>

text \<open>
  \<open>scan\<close>: the \<open>for _, ip := range ips\<close> loop as recursion on the list. An entry
  that does not parse is skipped (\<open>continue\<close>); the first entry whose family equals
  \<open>wantV4\<close> is returned as it stands; the empty string is returned after the loop.
\<close>

fun scan :: "netpkg \<Rightarrow> string list \<Rightarrow> bool \<Rightarrow> string" where
  "scan net [] wantV4 = []"
| "scan net (ip # ips) wantV4 =
     (case ParseIP net ip of
        None \<Rightarrow> scan net ips wantV4
      | Some parsed \<Rightarrow>
          (let isV4 = (To4 net parsed \<noteq> None)
           in if isV4 = wantV4 then ip else scan net ips wantV4))"

text \<open>
  \<open>replaceIP\<close> returns Go's pair \<open>(string, error)\<close>; a nil error is \<open>None\<close>.
  \<open>ips[0]\<close> is only read after \<open>len(ips) == 0\<close> has been excluded.
\<close>

definition replaceIP :: "netpkg \<Rightarrow> string \<Rightarrow> string list \<Rightarrow> string \<times> error option" where
  "replaceIP net addr ips =
     (if length ips = 0 then ([], Some ErrNoResolvers)
      else case SplitHostPort net addr of
        Inl err \<Rightarrow> ([], Some (ErrSplit err))
      | Inr (orighost, port) \<Rightarrow>
          (case ParseIP net orighost of
             None \<Rightarrow> ([], Some (ErrCannotParse orighost))
           | Some origip \<Rightarrow>
               (let isV4 = (To4 net origip \<noteq> None);
                    newIP = scan net ips isV4;
                    newIP = (if newIP = [] then ips ! 0 else newIP)
                in (JoinHostPort net newIP port, None))))"

text \<open>The error classes of the specification, as predicates on the error values.\<close>

definition NoResolvers :: "error \<Rightarrow> bool" where
  "NoResolvers e = (e = ErrNoResolvers)"

fun InvalidAddress :: "error \<Rightarrow> bool" where
  "InvalidAddress (ErrSplit e) = True"
| "InvalidAddress (ErrCannotParse h) = True"
| "InvalidAddress e = False"

section \<open>Package net of the Go standard library\<close>

text \<open>
  The instance of \<open>netpkg\<close> that follows the standard library of Go 1.17 (the release
  the build script of the repository installs): \<open>net.ParseIP\<close> with its helpers
  \<open>dtoi\<close>, \<open>xtoi\<close>, \<open>parseIPv4\<close> and \<open>parseIPv6\<close>, \<open>IP.To4\<close>,
  \<open>net.SplitHostPort\<close> and \<open>net.JoinHostPort\<close>. The general theorems about
  \<open>scan\<close> and \<open>replaceIP\<close> hold for every \<open>netpkg\<close>; this instance is where
  they are evaluated on concrete addresses.
\<close>

definition big :: int where
  "big = 0xFFFFFF"

definition byte :: "char \<Rightarrow> int" where
  "byte c = of_char c"

text \<open>
  \<open>dtoi\<close>: decimal to integer. Returns the number, the characters consumed and
  success. The loop carries \<open>n\<close> and \<open>i\<close>; the string is what is left at index \<open>i\<close>.
\<close>

fun dtoi_loop :: "string \<Rightarrow> int \<Rightarrow> nat \<Rightarrow> int \<times> nat \<times> bool" where
  "dtoi_loop [] n i = (if i = 0 then (0, 0, False) else (n, i, True))"
| "dtoi_loop (c # cs) n i =
     (if byte CHR ''0'' \<le> byte c \<and> byte c \<le> byte CHR ''9'' then
        (let n = n * 10 + (byte c - byte CHR ''0'')
         in if n \<ge> big then (big, i, False) else dtoi_loop cs n (i + 1))
      else if i = 0 then (0, 0, False) else (n, i, True))"

definition dtoi :: "string \<Rightarrow> int \<times> nat \<times> bool" where
  "dtoi s = dtoi_loop s 0 0"

text \<open>\<open>xtoi\<close>: hexadecimal to integer, same result shape.\<close>

fun xtoi_loop :: "string \<Rightarrow> int \<Rightarrow> nat \<Rightarrow> int \<times> nat \<times> bool" where
  "xtoi_loop [] n i = (if i = 0 then (0, i, False) else (n, i, True))"
| "xtoi_loop (c # cs) n i =
     (if byte CHR ''0'' \<le> byte c \<and> byte c \<le> byte CHR ''9'' then
        (let n = n * 16 + (byte c - byte CHR ''0'')
         in if n \<ge> big then (0, i, False) else xtoi_loop cs n (i + 1))
      else if byte CHR ''a'' \<le> byte c \<and> byte c \<le> byte CHR ''f'' then
        (let n = n * 16 + (byte c - byte CHR ''a'') + 10
         in if n \<ge> big then (0, i, False) else xtoi_loop cs n (i + 1))
      else if byte CHR ''A'' \<le> byte c \<and> byte c \<le> byte CHR ''F'' then
        (let n = n * 16 + (byte c - byte CHR ''A'') + 10
         in if n \<ge> big then (0, i, False) else xtoi_loop cs n (i + 1))
      else if i = 0 then (0, i, False) else (n, i, True))"

definition xtoi :: "string \<Rightarrow> int \<times> nat \<times> bool" where
  "xtoi s = xtoi_loop s 0 0"

definition IPv4len :: nat where "IPv4len = 4"
definition IPv6len :: nat where "IPv6len = 16"

definition v4InV6Prefix :: IP where
  "v4InV6Prefix = [0, 0, 0, 0, 0, 0, 0, 0, 0, 0, 0xff, 0xff]"

text \<open>\<open>IPv4(a, b, c, d)\<close>: the 16-byte form of an IPv4 address.\<close>

definition IPv4 :: "8 word \<Rightarrow> 8 word \<Rightarrow> 8 word \<Rightarrow> 8 word \<Rightarrow> IP" where
  "IPv4 a b c d = v4InV6Prefix @ [a, b, c, d]"

text \<open>
  \<open>parseIPv4\<close>: four decimal octets separated by dots; an octet above 255 or with a
  leading zero is rejected, and so is anything left over after the fourth octet.
\<close>

function parseIPv4_loop :: "nat \<Rightarrow> string \<Rightarrow> 8 word list \<Rightarrow> IP option" where
  "parseIPv4_loop i s p =
     (if i < IPv4len then
        (if length s = 0 then None
         else if i > 0 \<and> s ! 0 \<noteq> CHR ''.'' then None
         else
           (let s = (if i > 0 then drop 1 s else s);
                (n, c, ok) = dtoi s
            in if \<not> ok \<or> n > 0xFF then None
               else if c > 1 \<and> s ! 0 = CHR ''0'' then None
               else parseIPv4_loop (i + 1) (drop c s) (p[i := of_int n])))
      else if length s \<noteq> 0 then None
      else Some (IPv4 (p ! 0) (p ! 1) (p ! 2) (p ! 3)))"
  by pat_completeness auto
termination
  by (relation "measure (\<lambda>(i, s, p). IPv4len - i)") (auto simp: IPv4len_def)

declare parseIPv4_loop.simps [simp del]

definition parseIPv4 :: "string \<Rightarrow> IP option" where
  "parseIPv4 s = parseIPv4_loop 0 s (replicate IPv4len 0)"

text \<open>
  \<open>parseIPv6\<close>. The loop state is the rest of the string, the write position \<open>i\<close>,
  the position of the ellipsis (\<open>None\<close> for Go's \<open>-1\<close>) and the 16-byte buffer. The
  loop returns \<open>None\<close> where the source returns nil, and the state at the \<open>break\<close> or
  at the end of the loop otherwise.
\<close>

function parseIPv6_loop ::
  "string \<Rightarrow> nat \<Rightarrow> nat option \<Rightarrow> IP \<Rightarrow> (string \<times> nat \<times> nat option \<times> IP) option" where
  "parseIPv6_loop s i ellipsis ip =
     (if i < IPv6len then
        (let (n, c, ok) = xtoi s
         in if \<not> ok \<or> n > 0xFFFF then None
            else if c < length s \<and> s ! c = CHR ''.'' then
              (if ellipsis = None \<and> i \<noteq> IPv6len - IPv4len then None
               else if i + IPv4len > IPv6len then None
               else case parseIPv4 s of
                      None \<Rightarrow> None
                    | Some ip4 \<Rightarrow>
                        Some ([], i + IPv4len, ellipsis,
                              ip[i := ip4 ! 12, i + 1 := ip4 ! 13,
                                 i + 2 := ip4 ! 14, i + 3 := ip4 ! 15]))
            else
              (let ip = ip[i := of_int (drop_bit 8 n), i + 1 := of_int n];
                   i = i + 2;
                   s = drop c s
               in if length s = 0 then Some (s, i, ellipsis, ip)
                  else if s ! 0 \<noteq> CHR '':'' \<or> length s = 1 then None
                  else
                    (let s = drop 1 s
                     in if s ! 0 = CHR '':'' then
                          (if ellipsis \<noteq> None then None
                           else
                             (let ellipsis = Some i; s = drop 1 s
                              in if length s = 0 then Some (s, i, ellipsis, ip)
                                 else parseIPv6_loop s i ellipsis ip))
                        else parseIPv6_loop s i ellipsis ip)))
      else Some (s, i, ellipsis, ip))"
  by pat_completeness auto
termination
  by (relation "measure (\<lambda>(s, i, e, ip). IPv6len - i)") (auto simp: IPv6len_def)

declare parseIPv6_loop.simps [simp del]

text \<open>
  After the loop: the whole string must have been used; a short parse is completed by
  expanding the ellipsis (the source copies and clears from the top index downwards).
\<close>

definition parseIPv6_finish :: "string \<Rightarrow> nat \<Rightarrow> nat option \<Rightarrow> IP \<Rightarrow> IP option" where
  "parseIPv6_finish s i ellipsis ip =
     (if length s \<noteq> 0 then None
      else if i < IPv6len then
        (case ellipsis of
           None \<Rightarrow> None
         | Some e \<Rightarrow>
             (let n = IPv6len - i;
                  ip = fold (\<lambda>j ip. ip[j + n := ip ! j]) (rev [e..<i]) ip;
                  ip = fold (\<lambda>j ip. ip[j := 0]) (rev [e..<e + n]) ip
              in Some ip))
      else if ellipsis \<noteq> None then None
      else Some ip)"

definition parseIPv6 :: "string \<Rightarrow> IP option" where
  "parseIPv6 s =
     (let ip = replicate IPv6len 0
      in if length s \<ge> 2 \<and> s ! 0 = CHR '':'' \<and> s ! 1 = CHR '':'' then
           (let s = drop 2 s
            in if length s = 0 then Some ip
               else case parseIPv6_loop s 0 (Some 0) ip of
                      None \<Rightarrow> None
                    | Some (s, i, ellipsis, ip) \<Rightarrow> parseIPv6_finish s i ellipsis ip)
         else case parseIPv6_loop s 0 None ip of
                None \<Rightarrow> None
              | Some (s, i, ellipsis, ip) \<Rightarrow> parseIPv6_finish s i ellipsis ip)"

text \<open>
  \<open>net.ParseIP\<close>: the first dot or colon of the string decides between the two
  parsers; a string with neither is not an address.
\<close>

fun ParseIP_loop :: "string \<Rightarrow> string \<Rightarrow> IP option" where
  "ParseIP_loop s [] = None"
| "ParseIP_loop s (c # cs) =
     (if c = CHR ''.'' then parseIPv4 s
      else if c = CHR '':'' then parseIPv6 s
      else ParseIP_loop s cs)"

definition net_ParseIP :: "string \<Rightarrow> IP option" where
  "net_ParseIP s = ParseIP_loop s s"

text \<open>
  \<open>IP.To4\<close>: a 4-byte address as it is, the last four bytes of a 16-byte address
  that carries the IPv4-in-IPv6 prefix, nil otherwise.
\<close>

definition isZeros :: "IP \<Rightarrow> bool" where
  "isZeros p = list_all (\<lambda>b. b = 0) p"

definition IP_To4 :: "IP \<Rightarrow> IP option" where
  "IP_To4 ip =
     (if length ip = IPv4len then Some ip
      else if length ip = IPv6len \<and> isZeros (take 10 ip) \<and> ip ! 10 = 0xff \<and> ip ! 11 = 0xff
           then Some (take 4 (drop 12 ip))
      else None)"

text \<open>
  \<open>bytealg.IndexByteString\<close> and \<open>last\<close>: the first and the last index of a byte
  in a string, \<open>None\<close> for Go's \<open>-1\<close>.
\<close>

fun IndexByteString :: "string \<Rightarrow> char \<Rightarrow> nat option" where
  "IndexByteString [] c = None"
| "IndexByteString (x # xs) c =
     (if x = c then Some 0 else map_option Suc (IndexByteString xs c))"

fun last_index :: "string \<Rightarrow> char \<Rightarrow> nat option" where
  "last_index [] c = None"
| "last_index (x # xs) c =
     (case last_index xs c of
        Some i \<Rightarrow> Some (Suc i)
      | None \<Rightarrow> if x = c then Some 0 else None)"

text \<open>\<open>net.SplitHostPort\<close>, with the error cases in the order of the source.\<close>

definition missingPort :: string where
  "missingPort = ''missing port in address''"

definition tooManyColons :: string where
  "tooManyColons = ''too many colons in address''"

definition splitTail ::
  "string \<Rightarrow> string \<Rightarrow> nat \<Rightarrow> nat \<Rightarrow> nat \<Rightarrow> AddrError + string \<times> string" where
  "splitTail hostport host i j k =
     (if IndexByteString (drop j hostport) CHR ''['' \<noteq> None then
        Inl (AddrError ''unexpected '[' in address'' hostport)
      else if IndexByteString (drop k hostport) CHR '']'' \<noteq> None then
        Inl (AddrError ''unexpected ']' in address'' hostport)
      else Inr (host, drop (i + 1) hostport))"

definition net_SplitHostPort :: "string \<Rightarrow> AddrError + string \<times> string" where
  "net_SplitHostPort hostport =
     (case last_index hostport CHR '':'' of
        None \<Rightarrow> Inl (AddrError missingPort hostport)
      | Some i \<Rightarrow>
          if hostport ! 0 = CHR ''['' then
            (case IndexByteString hostport CHR '']'' of
               None \<Rightarrow> Inl (AddrError ''missing ']' in address'' hostport)
             | Some end \<Rightarrow>
                 if end + 1 = length hostport then Inl (AddrError missingPort hostport)
                 else if end + 1 = i then
                   splitTail hostport (drop 1 (take end hostport)) i 1 (end + 1)
                 else if hostport ! (end + 1) = CHR '':'' then
                   Inl (AddrError tooManyColons hostport)
                 else Inl (AddrError missingPort hostport))
          else
            (let host = take i hostport
             in if IndexByteString host CHR '':'' \<noteq> None then
                  Inl (AddrError tooManyColons hostport)
                else splitTail hostport host i 0 0))"

text \<open>\<open>net.JoinHostPort\<close>: a host with a colon is taken for an IPv6 literal and bracketed.\<close>

definition net_JoinHostPort :: "string \<Rightarrow> string \<Rightarrow> string" where
  "net_JoinHostPort host port =
     (if IndexByteString host CHR '':'' \<noteq> None then ''['' @ host @ '']:'' @ port
      else host @ '':'' @ port)"

definition gonet :: netpkg where
  "gonet = \<lparr> ParseIP = net_ParseIP, To4 = IP_To4,
             SplitHostPort = net_SplitHostPort, JoinHostPort = net_JoinHostPort \<rparr>"

text \<open>
  A string without square brackets. Every string that \<open>net.ParseIP\<close> accepts is
  one, and \<open>net.SplitHostPort\<close> recovers such a host from \<open>net.JoinHostPort\<close>.
\<close>

definition noBrackets :: "string \<Rightarrow> bool" where
  "noBrackets s = (CHR ''['' \<notin> set s \<and> CHR '']'' \<notin> set s)"

text \<open>
  \<open>strings.Split(s, sep)\<close> for a separator of one byte, which is how the package
  calls it (\<open>","\<close>): the fields between the separators, in order, so that a string
  with \<open>n\<close> separators has \<open>n + 1\<close> fields. \<open>cur\<close> is the field being read.
\<close>

fun Split_loop :: "string \<Rightarrow> char \<Rightarrow> string \<Rightarrow> string list" where
  "Split_loop [] sep cur = [cur]"
| "Split_loop (c # cs) sep cur =
     (if c = sep then cur # Split_loop cs sep [] else Split_loop cs sep (cur @ [c]))"

definition strings_Split :: "string \<Rightarrow> char \<Rightarrow> string list" where
  "strings_Split s sep = Split_loop s sep []"

section \<open>The Protector and the control hook\<close>

text \<open>
  The \<open>Protector\<close> interface is implemented by the platform. Its two methods may
  read and change the platform's state \<open>'s\<close>, which the package never inspects.
  \<open>Protect\<close> takes the socket as an \<open>int32\<close>.
\<close>

record 's Protector =
  Protect :: "32 word \<Rightarrow> 's \<Rightarrow> bool \<times> 's"
  GetResolvers :: "'s \<Rightarrow> string \<times> 's"

text \<open>
  What the package can change: the platform behind the Protector, and the lines that
  \<open>log.Errorf\<close> has written.
\<close>

record 's state =
  platform :: 's
  errlog :: "string list"

definition Errorf :: "string \<Rightarrow> 's state \<Rightarrow> 's state" where
  "Errorf line w = w\<lparr>errlog := errlog w @ [line]\<rparr>"

type_synonym uintptr = "64 word"

text \<open>
  \<open>syscall.RawConn\<close>, as package \<open>net\<close> implements it: \<open>Control(f)\<close> calls \<open>f\<close>
  once with the descriptor and returns nil, or, when the descriptor can no longer be
  used, returns an error without calling \<open>f\<close>.
\<close>

datatype RawConn = LiveConn uintptr | DeadConn error

definition RawConn_Control :: "RawConn \<Rightarrow> (uintptr \<Rightarrow> 'w \<Rightarrow> 'w) \<Rightarrow> 'w \<Rightarrow> error option \<times> 'w" where
  "RawConn_Control c f w =
     (case c of LiveConn fd \<Rightarrow> (None, f fd w) | DeadConn e \<Rightarrow> (Some e, w))"

type_synonym 's ControlFn =
  "string \<Rightarrow> string \<Rightarrow> RawConn \<Rightarrow> 's state \<Rightarrow> error option \<times> 's state"

text \<open>
  \<open>makeControl(p)\<close>: the hook passes the descriptor, narrowed to \<open>int32\<close>, to
  \<open>p.Protect\<close>, logs one line when that returns false, and returns what
  \<open>c.Control\<close> returns.
\<close>

definition makeControl :: "'s Protector \<Rightarrow> 's ControlFn" where
  "makeControl p network address c =
     RawConn_Control c
       (\<lambda>fd w.
          (let (ok, h) = Protect p (ucast fd) (platform w);
               w = w\<lparr>platform := h\<rparr>
           in if \<not> ok then Errorf (''Failed to protect a '' @ network @ '' socket'') w
              else w))"

section \<open>The dialer and the listener configuration\<close>

text \<open>
  Of \<open>net.Resolver\<close>, \<open>net.Dialer\<close> and \<open>net.ListenConfig\<close> the records keep the
  fields this package sets; every other field is left at its zero value by the package.
  A nil function or pointer is \<open>None\<close>. \<open>'ctx\<close> is \<open>context.Context\<close> and \<open>'c\<close> is
  \<open>net.Conn\<close>.
\<close>

type_synonym ('s, 'ctx, 'c) DialFn =
  "'ctx \<Rightarrow> string \<Rightarrow> string \<Rightarrow> 's state \<Rightarrow> ('c option \<times> error option) \<times> 's state"

record ('s, 'ctx, 'c) Resolver =
  PreferGo :: bool
  Dial :: "('s, 'ctx, 'c) DialFn option"

record 's ListenConfig =
  Control :: "'s ControlFn option"

record ('s, 'ctx, 'c) Dialer =
  Control :: "'s ControlFn option"
  Resolver :: "('s, 'ctx, 'c) Resolver option"

text \<open>
  \<open>MakeDialer\<close> returns a pointer, and the closure \<open>resolverDialer\<close> captures that
  same pointer. Dialers therefore live in a store (a list, addressed by index), and a
  \<open>*net.Dialer\<close> is an index into it. The method \<open>(*net.Dialer).DialContext\<close>
  belongs to package \<open>net\<close>; it is a parameter that receives the pointer it is called
  on.
\<close>

type_synonym ('s, 'ctx, 'c) DialContext = "nat \<Rightarrow> ('s, 'ctx, 'c) DialFn"

text \<open>
  The closure \<open>resolverDialer\<close> of \<open>MakeDialer\<close>, with the variables it captures
  (\<open>p\<close> and \<open>d\<close>) as arguments.
\<close>

definition resolverDialer ::
  "('s, 'ctx, 'c) DialContext \<Rightarrow> netpkg \<Rightarrow> 's Protector \<Rightarrow> nat \<Rightarrow> ('s, 'ctx, 'c) DialFn" where
  "resolverDialer DialContext net p d ctx network address w =
     (let (rs, h) = GetResolvers p (platform w);
          w = w\<lparr>platform := h\<rparr>;
          resolvers = strings_Split rs CHR '','';
          (newAddress, err) = replaceIP net address resolvers
      in case err of
           Some e \<Rightarrow> ((None, Some e), w)
         | None \<Rightarrow> DialContext d ctx network newAddress w)"

definition MakeDialer ::
  "('s, 'ctx, 'c) DialContext \<Rightarrow> netpkg \<Rightarrow> 's Protector option \<Rightarrow>
   ('s, 'ctx, 'c) Dialer list \<Rightarrow> nat \<times> ('s, 'ctx, 'c) Dialer list" where
  "MakeDialer DialContext net p store =
     (case p of
        None \<Rightarrow>
          (length store, store @ [\<lparr>Dialer.Control = None, Resolver = None\<rparr>])
      | Some p \<Rightarrow>
          (let d = length store;
               store = store @ [\<lparr>Dialer.Control = Some (makeControl p), Resolver = None\<rparr>];
               resolverDialer = resolverDialer DialContext net p d;
               store = store[d := (store ! d)
                         \<lparr>Resolver := Some \<lparr>PreferGo = True, Dial = Some resolverDialer\<rparr>\<rparr>]
           in (d, store)))"

text \<open>
  \<open>MakeListenConfig\<close>: nothing else refers to the new \<open>ListenConfig\<close>, so it is
  returned as a value.
\<close>

definition MakeListenConfig :: "'s Protector option \<Rightarrow> 's ListenConfig" where
  "MakeListenConfig p =
     (case p of
        None \<Rightarrow> \<lparr>ListenConfig.Control = None\<rparr>
      | Some p \<Rightarrow> \<lparr>ListenConfig.Control = Some (makeControl p)\<rparr>)"

section \<open>The Matcher as the specification words it\<close>

text \<open>
  An entry is of the wanted family when it parses and the parsed address has a 4-byte
  form exactly when IPv4 is wanted.
\<close>

definition familyMatches :: "netpkg \<Rightarrow> bool \<Rightarrow> string \<Rightarrow> bool" where
  "familyMatches net wantV4 ip =
     (case ParseIP net ip of
        None \<Rightarrow> False
      | Some parsed \<Rightarrow> (To4 net parsed \<noteq> None) = wantV4)"

text \<open>
  "The first address in the sequence whose parsed family matches, or empty string if
  none."
\<close>

definition firstMatch :: "netpkg \<Rightarrow> string list \<Rightarrow> bool \<Rightarrow> string" where
  "firstMatch net ips wantV4 =
     (case find (familyMatches net wantV4) ips of None \<Rightarrow> [] | Some ip \<Rightarrow> ip)"

section \<open>A sample platform\<close>

text \<open>
  Concrete collaborators on which the theorems are evaluated: a Protector that refuses
  every socket (its state is the list of sockets it was asked about) and reports a
  fixed resolver string, and a \<open>DialContext\<close> whose connection records the dialer it
  was called on, the network and the address.
\<close>

definition refusingProtector :: "string \<Rightarrow> (32 word list) Protector" where
  "refusingProtector rs =
     \<lparr> Protect = (\<lambda>fd h. (False, h @ [fd])), GetResolvers = (\<lambda>h. (rs, h)) \<rparr>"

definition recordingDial :: "(32 word list, unit, nat \<times> string \<times> string) DialContext" where
  "recordingDial d ctx network address w = ((Some (d, network, address), None), w)"

section \<open>Properties of scan\<close>

lemma scan_step:
  "scan net (ip # ips) wantV4 = (if familyMatches net wantV4 ip then ip else scan net ips wantV4)"
  by (simp add: familyMatches_def split: option.split)

lemma scan_no_match:
  "\<forall>x\<in>set ips. \<not> familyMatches net wantV4 x \<Longrightarrow> scan net ips wantV4 = []"
  by (induction ips) (simp_all add: scan_step del: scan.simps(2))

lemma scan_first:
  "\<forall>x\<in>set pre. \<not> familyMatches net wantV4 x \<Longrightarrow> familyMatches net wantV4 ip \<Longrightarrow>
   scan net (pre @ ip # post) wantV4 = ip"
  by (induction pre) (simp_all add: scan_step del: scan.simps(2))

lemma scan_firstMatch: "scan net ips wantV4 = firstMatch net ips wantV4"
  by (induction ips) (simp_all add: scan_step firstMatch_def del: scan.simps(2))

lemma scan_in_set: "scan net ips wantV4 \<noteq> [] \<Longrightarrow> scan net ips wantV4 \<in> set ips"
  by (induction ips) (auto simp: scan_step simp del: scan.simps(2) split: if_splits)

lemma familyMatches_nonempty:
  "ParseIP net [] = None \<Longrightarrow> familyMatches net wantV4 ip \<Longrightarrow> ip \<noteq> []"
  by (auto simp: familyMatches_def)

lemma replaceIP_ok:
  assumes "ips \<noteq> []" "SplitHostPort net addr = Inr (orighost, port)"
    "ParseIP net orighost = Some origip"
  shows "replaceIP net addr ips =
    (JoinHostPort net (if scan net ips (To4 net origip \<noteq> None) = [] then ips ! 0
                       else scan net ips (To4 net origip \<noteq> None)) port, None)"
  using assms by (simp add: replaceIP_def Let_def)

text \<open>
  C4. With an empty resolver list \<open>replaceIP\<close> returns the empty string and the
  "no resolvers" error, whatever the address is and whatever the functions of package
  \<open>net\<close> would do: the address is neither split nor parsed before the list is checked.
\<close>

theorem replaceIP_empty_list:
  "replaceIP net addr [] = ([], Some ErrNoResolvers) \<and> NoResolvers ErrNoResolvers"
  by (simp add: replaceIP_def NoResolvers_def)

text \<open>
  C6. \<open>scan\<close> computes the Matcher of the specification: its result is the first
  entry, in list order, whose parsed family matches the flag (entries that do not parse
  match neither family and are passed over), and the empty string when no entry
  matches. Being a function of the list and the flag, it gives the same result for the
  same arguments.
\<close>

theorem scan_first_match:
  "scan net ips wantV4 = firstMatch net ips wantV4 \<and>
   (\<forall>pre ip post. ips = pre @ ip # post \<and>
        (\<forall>x\<in>set pre. \<not> familyMatches net wantV4 x) \<and> familyMatches net wantV4 ip \<longrightarrow>
      scan net ips wantV4 = ip) \<and>
   ((\<forall>x\<in>set ips. \<not> familyMatches net wantV4 x) \<longrightarrow> scan net ips wantV4 = [])"
proof (intro conjI allI impI)
  show "scan net ips wantV4 = firstMatch net ips wantV4"
    by (rule scan_firstMatch)
next
  fix pre ip post
  assume "ips = pre @ ip # post \<and>
    (\<forall>x\<in>set pre. \<not> familyMatches net wantV4 x) \<and> familyMatches net wantV4 ip"
  then show "scan net ips wantV4 = ip"
    by (simp add: scan_first)
next
  assume "\<forall>x\<in>set ips. \<not> familyMatches net wantV4 x"
  then show "scan net ips wantV4 = []"
    by (rule scan_no_match)
qed

theorem scan_first_match_witness:
  "scan gonet [''bad'', ''10.0.0.1'', ''10.0.0.2''] True = ''10.0.0.1'' \<and>
   scan gonet [''2001:db8::1'', ''10.0.0.1''] True = ''10.0.0.1'' \<and>
   scan gonet [''2001:db8::1''] True = []"
proof -
  have n1: "\<not> familyMatches gonet True ''bad''" by code_simp
  have n2: "\<not> familyMatches gonet True ''2001:db8::1''" by code_simp
  have y: "familyMatches gonet True ''10.0.0.1''" by code_simp
  have a: "scan gonet [''bad'', ''10.0.0.1'', ''10.0.0.2''] True = ''10.0.0.1''"
    using scan_first_match[of gonet "[''bad'', ''10.0.0.1'', ''10.0.0.2'']" True] n1 y
    by (elim conjE allE[where x = "[''bad'']"] allE[where x = "''10.0.0.1''"]
          allE[where x = "[''10.0.0.2'']"]) simp
  have b: "scan gonet [''2001:db8::1'', ''10.0.0.1''] True = ''10.0.0.1''"
    using scan_first_match[of gonet "[''2001:db8::1'', ''10.0.0.1'']" True] n2 y
    by (elim conjE allE[where x = "[''2001:db8::1'']"] allE[where x = "''10.0.0.1''"]
          allE[where x = "[]"]) simp
  have c: "scan gonet [''2001:db8::1''] True = []"
    using scan_first_match[of gonet "[''2001:db8::1'']" True] n2
    by (elim conjE) (simp del: scan.simps)
  from a b c show ?thesis by simp
qed

text \<open>
  C1. Let the address split into \<open>orighost\<close> and \<open>port\<close>, let \<open>orighost\<close> parse,
  and let \<open>ip\<close> be the first entry of the resolver list that parses to an address of
  the family of \<open>orighost\<close> (no entry before it does). Then \<open>replaceIP\<close> succeeds and
  returns \<open>ip\<close> joined with the original port. The empty string is not an IP literal
  (\<open>net.ParseIP("")\<close> is nil); with \<open>ParseIP\<close> a parameter, this is the first
  hypothesis.
\<close>

theorem replaceIP_same_family:
  assumes "ParseIP net [] = None"
    and "SplitHostPort net addr = Inr (orighost, port)"
    and "ParseIP net orighost = Some origip"
    and "ips = pre @ ip # post"
    and "\<forall>x\<in>set pre. \<not> familyMatches net (To4 net origip \<noteq> None) x"
    and "familyMatches net (To4 net origip \<noteq> None) ip"
  shows "replaceIP net addr ips = (JoinHostPort net ip port, None)"
proof -
  have "scan net ips (To4 net origip \<noteq> None) = ip"
    using assms(4-6) by (simp add: scan_first)
  moreover have "ip \<noteq> []"
    using assms(1,6) by (rule familyMatches_nonempty)
  moreover have "ips \<noteq> []" using assms(4) by simp
  ultimately show ?thesis
    using replaceIP_ok[OF _ assms(2,3)] by simp
qed

theorem replaceIP_same_family_witness:
  "familyMatches gonet True ''10.0.0.1'' \<and>
   replaceIP gonet ''8.8.8.8:53'' [''bad'', ''2001:db8::1'', ''10.0.0.1'', ''10.0.0.2'']
     = (''10.0.0.1:53'', None)"
proof -
  let ?origip = "[0, 0, 0, 0, 0, 0, 0, 0, 0, 0, 255, 255, 8, 8, 8, 8] :: IP"
  have h1: "ParseIP gonet [] = None" by code_simp
  have h2: "SplitHostPort gonet ''8.8.8.8:53'' = Inr (''8.8.8.8'', ''53'')" by code_simp
  have h3: "ParseIP gonet ''8.8.8.8'' = Some ?origip" by code_simp
  have h4: "[''bad'', ''2001:db8::1'', ''10.0.0.1'', ''10.0.0.2'']
              = [''bad'', ''2001:db8::1''] @ ''10.0.0.1'' # [''10.0.0.2'']" by simp
  have v4: "(To4 gonet ?origip \<noteq> None) = True" by code_simp
  have n1: "\<not> familyMatches gonet True ''bad''" by code_simp
  have n2: "\<not> familyMatches gonet True ''2001:db8::1''" by code_simp
  have h5: "\<forall>x\<in>set [''bad'', ''2001:db8::1'']. \<not> familyMatches gonet (To4 gonet ?origip \<noteq> None) x"
    unfolding v4 using n1 n2 by simp
  have y: "familyMatches gonet True ''10.0.0.1''" by code_simp
  have h6: "familyMatches gonet (To4 gonet ?origip \<noteq> None) ''10.0.0.1''"
    unfolding v4 by (rule y)
  have j: "JoinHostPort gonet ''10.0.0.1'' ''53'' = ''10.0.0.1:53''" by code_simp
  show ?thesis
    using replaceIP_same_family[OF h1 h2 h3 h4 h5 h6] y j by simp
qed

text \<open>
  C2. Let the address split into \<open>orighost\<close> and \<open>port\<close> and let \<open>orighost\<close> parse.
  If the resolver list is not empty and none of its entries parses to an address of
  the family of \<open>orighost\<close>, then \<open>replaceIP\<close> succeeds and returns the first entry
  of the list, whatever it is, joined with the original port.
\<close>

theorem replaceIP_fallback:
  assumes "SplitHostPort net addr = Inr (orighost, port)"
    and "ParseIP net orighost = Some origip"
    and "ips \<noteq> []"
    and "\<forall>x\<in>set ips. \<not> familyMatches net (To4 net origip \<noteq> None) x"
  shows "replaceIP net addr ips = (JoinHostPort net (ips ! 0) port, None)"
  using replaceIP_ok[OF assms(3,1,2)] scan_no_match[OF assms(4)] by simp

theorem replaceIP_fallback_witness:
  "\<not> familyMatches gonet True ''2001:db8::1'' \<and>
   replaceIP gonet ''8.8.8.8:53'' [''2001:db8::1''] = (''[2001:db8::1]:53'', None)"
proof -
  let ?origip = "[0, 0, 0, 0, 0, 0, 0, 0, 0, 0, 255, 255, 8, 8, 8, 8] :: IP"
  have h1: "SplitHostPort gonet ''8.8.8.8:53'' = Inr (''8.8.8.8'', ''53'')" by code_simp
  have h2: "ParseIP gonet ''8.8.8.8'' = Some ?origip" by code_simp
  have h3: "[''2001:db8::1''] \<noteq> []" by simp
  have v4: "(To4 gonet ?origip \<noteq> None) = True" by code_simp
  have n: "\<not> familyMatches gonet True ''2001:db8::1''" by code_simp
  have h4: "\<forall>x\<in>set [''2001:db8::1'']. \<not> familyMatches gonet (To4 gonet ?origip \<noteq> None) x"
    unfolding v4 using n by simp
  have j: "JoinHostPort gonet ''2001:db8::1'' ''53'' = ''[2001:db8::1]:53''" by code_simp
  show ?thesis
    using replaceIP_fallback[OF h1 h2 h3 h4] n j by simp
qed

text \<open>
  C3. Whenever \<open>replaceIP\<close> succeeds, the address it returns is \<open>JoinHostPort\<close> of
  an element of the resolver list and the port that \<open>SplitHostPort\<close> found in the
  input: the host is never taken from anywhere else and the port is never changed.
\<close>

theorem replaceIP_host_from_list:
  assumes "replaceIP net addr ips = (r, None)"
  shows "\<exists>orighost port h. SplitHostPort net addr = Inr (orighost, port) \<and>
           h \<in> set ips \<and> r = JoinHostPort net h port"
proof -
  from assms have ne: "ips \<noteq> []" by (auto simp: replaceIP_def)
  from assms ne obtain orighost port where
    sp: "SplitHostPort net addr = Inr (orighost, port)"
    by (auto simp: replaceIP_def split: sum.splits)
  from assms ne sp obtain origip where pa: "ParseIP net orighost = Some origip"
    by (auto simp: replaceIP_def split: option.splits)
  let ?s = "scan net ips (To4 net origip \<noteq> None)"
  let ?h = "if ?s = [] then ips ! 0 else ?s"
  have "r = JoinHostPort net ?h port"
    using replaceIP_ok[OF ne sp pa] assms by simp
  moreover have "?h \<in> set ips"
    using ne scan_in_set[of net ips "To4 net origip \<noteq> None"] by (cases ips) auto
  ultimately show ?thesis using sp by blast
qed

theorem replaceIP_host_from_list_witness:
  "\<exists>orighost port h.
     SplitHostPort gonet ''[2001:db8::7]:853'' = Inr (orighost, port) \<and>
     h \<in> set [''10.0.0.1'', ''fe80::1''] \<and>
     ''[fe80::1]:853'' = JoinHostPort gonet h port"
proof -
  have h: "replaceIP gonet ''[2001:db8::7]:853'' [''10.0.0.1'', ''fe80::1'']
             = (''[fe80::1]:853'', None)" by code_simp
  show ?thesis by (rule replaceIP_host_from_list[OF h])
qed

text \<open>
  C5. With a non-empty resolver list: if the address cannot be split, \<open>replaceIP\<close>
  returns the empty string together with the error of \<open>SplitHostPort\<close>; if it splits
  and the host does not parse, \<open>replaceIP\<close> returns the empty string together with
  the "cannot parse resolver-ip" error. Both errors are of the class
  \<open>InvalidAddress\<close>, and no host is substituted.
\<close>

theorem replaceIP_invalid_address:
  assumes "ips \<noteq> []"
  shows "(\<forall>e. SplitHostPort net addr = Inl e \<longrightarrow>
            replaceIP net addr ips = ([], Some (ErrSplit e)) \<and> InvalidAddress (ErrSplit e)) \<and>
         (\<forall>orighost port. SplitHostPort net addr = Inr (orighost, port) \<and>
              ParseIP net orighost = None \<longrightarrow>
            replaceIP net addr ips = ([], Some (ErrCannotParse orighost)) \<and>
            InvalidAddress (ErrCannotParse orighost))"
  using assms by (simp add: replaceIP_def)

theorem replaceIP_invalid_address_witness:
  "replaceIP gonet ''8.8.8.8'' [''10.0.0.1'']
     = ([], Some (ErrSplit (AddrError ''missing port in address'' ''8.8.8.8''))) \<and>
   replaceIP gonet ''dns.google:53'' [''10.0.0.1'']
     = ([], Some (ErrCannotParse ''dns.google''))"
proof -
  have ne: "[''10.0.0.1''] \<noteq> []" by simp
  have s1: "SplitHostPort gonet ''8.8.8.8''
              = Inl (AddrError ''missing port in address'' ''8.8.8.8'')" by code_simp
  have s2: "SplitHostPort gonet ''dns.google:53'' = Inr (''dns.google'', ''53'')" by code_simp
  have p2: "ParseIP gonet ''dns.google'' = None" by code_simp
  from replaceIP_invalid_address[OF ne, of gonet "''8.8.8.8''"] s1
  have a: "replaceIP gonet ''8.8.8.8'' [''10.0.0.1'']
     = ([], Some (ErrSplit (AddrError ''missing port in address'' ''8.8.8.8'')))" by blast
  from replaceIP_invalid_address[OF ne, of gonet "''dns.google:53''"] s2 p2
  have b: "replaceIP gonet ''dns.google:53'' [''10.0.0.1'']
     = ([], Some (ErrCannotParse ''dns.google''))" by blast
  from a b show ?thesis by (rule conjI)
qed

section \<open>Facts about the Go instance and the closure\<close>

lemma gonet_ParseIP_empty: "ParseIP gonet [] = None"
  by (simp add: gonet_def net_ParseIP_def)

lemma gonet_JoinHostPort_empty: "JoinHostPort gonet [] port = '':'' @ port"
  by (simp add: gonet_def net_JoinHostPort_def)

lemma strings_Split_empty: "strings_Split [] sep = ['''']"
  by (simp add: strings_Split_def)

lemma resolverDialer_unfold:
  assumes "GetResolvers p (platform w) = (rs, h)"
  shows "resolverDialer dc net p d ctx network address w =
    (case replaceIP net address (strings_Split rs CHR '','') of
       (newAddress, Some err) \<Rightarrow> ((None, Some err), w\<lparr>platform := h\<rparr>)
     | (newAddress, None) \<Rightarrow> dc d ctx network newAddress (w\<lparr>platform := h\<rparr>))"
  using assms by (simp add: resolverDialer_def split: prod.split option.split)

section \<open>Properties of the hook and the factories\<close>

text \<open>
  C7. When the hook built by \<open>makeControl\<close> is run on a live socket, it returns no
  error whatever \<open>Protect\<close> answers. If \<open>Protect\<close> answers false, exactly one line,
  "Failed to protect a <network> socket", is appended to the log; if it answers true,
  nothing is logged. Nothing else changes but the platform state that \<open>Protect\<close>
  itself returns.
\<close>

theorem makeControl_protect_result:
  assumes "Protect p (ucast fd) (platform w) = (ok, h)"
  shows "makeControl p network address (LiveConn fd) w =
    (None, w\<lparr>platform := h,
             errlog := errlog w @
               (if ok then [] else [''Failed to protect a '' @ network @ '' socket''])\<rparr>)"
  using assms by (simp add: makeControl_def RawConn_Control_def Errorf_def)

theorem makeControl_protect_result_witness:
  "makeControl (refusingProtector ''10.0.0.1'') ''tcp4'' ''8.8.8.8:53'' (LiveConn 7)
     \<lparr>platform = [], errlog = []\<rparr>
   = (None, \<lparr>platform = [7], errlog = [''Failed to protect a tcp4 socket'']\<rparr>)"
proof -
  have h: "Protect (refusingProtector ''10.0.0.1'') (ucast (7 :: uintptr))
             (platform \<lparr>platform = [], errlog = []\<rparr>) = (False, [7])"
    by (simp add: refusingProtector_def)
  show ?thesis
    using makeControl_protect_result[OF h, of "''tcp4''" "''8.8.8.8:53''"] by simp
qed

text \<open>
  C8. Let \<open>d\<close> be the dialer that \<open>MakeDialer\<close> returns for a non-nil Protector.
  Its \<open>Control\<close> field is the protecting hook and its resolver dials with the closure
  \<open>resolverDialer\<close> that captured \<open>d\<close>. When that closure runs, it asks the
  Protector for the resolvers, splits them at the commas and rewrites the address: if
  the rewrite fails, the result is a nil connection with exactly that error and
  \<open>DialContext\<close> is not called; if it succeeds, the result is that of
  \<open>DialContext\<close> called on the very same \<open>d\<close> with the rewritten address.
\<close>

theorem MakeDialer_resolver_dial:
  assumes "MakeDialer dc net (Some p) store = (d, store')"
    and "GetResolvers p (platform w) = (rs, h)"
  shows "d < length store' \<and>
    Dialer.Control (store' ! d) = Some (makeControl p) \<and>
    Resolver (store' ! d) = Some \<lparr>PreferGo = True, Dial = Some (resolverDialer dc net p d)\<rparr> \<and>
    resolverDialer dc net p d ctx network address w =
      (case replaceIP net address (strings_Split rs CHR '','') of
         (newAddress, Some err) \<Rightarrow> ((None, Some err), w\<lparr>platform := h\<rparr>)
       | (newAddress, None) \<Rightarrow> dc d ctx network newAddress (w\<lparr>platform := h\<rparr>))"
proof -
  from assms(1) have d: "d = length store"
    and s: "store' = store @ [\<lparr>Dialer.Control = Some (makeControl p),
        Resolver = Some \<lparr>PreferGo = True, Dial = Some (resolverDialer dc net p d)\<rparr>\<rparr>]"
    by (auto simp: MakeDialer_def Let_def)
  from d s have "d < length store'" by simp
  moreover from d s have "Dialer.Control (store' ! d) = Some (makeControl p)" by simp
  moreover from d s have "Resolver (store' ! d) =
      Some \<lparr>PreferGo = True, Dial = Some (resolverDialer dc net p d)\<rparr>" by simp
  ultimately show ?thesis
    using resolverDialer_unfold[OF assms(2)] by simp
qed

theorem MakeDialer_resolver_dial_witness:
  "Resolver (snd (MakeDialer recordingDial gonet
       (Some (refusingProtector ''10.0.0.1,10.0.0.2'')) []) ! 0)
     = Some \<lparr>PreferGo = True, Dial = Some (resolverDialer recordingDial gonet
                (refusingProtector ''10.0.0.1,10.0.0.2'') 0)\<rparr> \<and>
   resolverDialer recordingDial gonet (refusingProtector ''10.0.0.1,10.0.0.2'') 0
       () ''udp'' ''8.8.8.8:53'' \<lparr>platform = [], errlog = []\<rparr>
     = ((Some (0, ''udp'', ''10.0.0.1:53''), None), \<lparr>platform = [], errlog = []\<rparr>) \<and>
   resolverDialer recordingDial gonet (refusingProtector ''10.0.0.1,10.0.0.2'') 0
       () ''udp'' ''dns.google:53'' \<lparr>platform = [], errlog = []\<rparr>
     = ((None, Some (ErrCannotParse ''dns.google'')), \<lparr>platform = [], errlog = []\<rparr>)"
proof -
  let ?p = "refusingProtector ''10.0.0.1,10.0.0.2''"
  let ?w = "\<lparr>platform = [] :: 32 word list, errlog = []\<rparr>"
  let ?D = "\<lparr>Dialer.Control = Some (makeControl ?p),
             Resolver = Some \<lparr>PreferGo = True,
               Dial = Some (resolverDialer recordingDial gonet ?p 0)\<rparr>\<rparr>"
  have mk: "MakeDialer recordingDial gonet (Some ?p) [] = (0, [?D])"
    by (simp add: MakeDialer_def Let_def)
  have gr: "GetResolvers ?p (platform ?w) = (''10.0.0.1,10.0.0.2'', [])"
    by (simp add: refusingProtector_def)
  have r1: "replaceIP gonet ''8.8.8.8:53'' (strings_Split ''10.0.0.1,10.0.0.2'' CHR '','')
              = (''10.0.0.1:53'', None)" by code_simp
  have r2: "replaceIP gonet ''dns.google:53'' (strings_Split ''10.0.0.1,10.0.0.2'' CHR '','')
              = ([], Some (ErrCannotParse ''dns.google''))" by code_simp
  have a: "Resolver (snd (MakeDialer recordingDial gonet (Some ?p) []) ! 0)
     = Some \<lparr>PreferGo = True, Dial = Some (resolverDialer recordingDial gonet ?p 0)\<rparr>"
    using MakeDialer_resolver_dial[OF mk gr] by (simp add: mk)
  have b: "resolverDialer recordingDial gonet ?p 0 () ''udp'' ''8.8.8.8:53'' ?w
     = ((Some (0, ''udp'', ''10.0.0.1:53''), None), ?w)"
    using MakeDialer_resolver_dial[OF mk gr, of "()" "''udp''" "''8.8.8.8:53''"]
    by (simp add: r1 recordingDial_def)
  have c: "resolverDialer recordingDial gonet ?p 0 () ''udp'' ''dns.google:53'' ?w
     = ((None, Some (ErrCannotParse ''dns.google'')), ?w)"
    using MakeDialer_resolver_dial[OF mk gr, of "()" "''udp''" "''dns.google:53''"]
    by (simp add: r2)
  from a b c show ?thesis by (intro conjI)
qed

text \<open>
  C9. For a nil Protector, \<open>MakeDialer\<close> allocates a dialer with neither a control
  hook nor a resolver (the zero value of \<open>net.Dialer\<close>) and changes no other dialer,
  and \<open>MakeListenConfig\<close> returns a configuration without a control hook (the zero
  value of \<open>net.ListenConfig\<close>).
\<close>

theorem factories_nil_Protector:
  "MakeDialer dc net None store
     = (length store, store @ [\<lparr>Dialer.Control = None, Resolver = None\<rparr>]) \<and>
   MakeListenConfig None = \<lparr>ListenConfig.Control = None\<rparr>"
  by (simp add: MakeDialer_def MakeListenConfig_def)

text \<open>
  C10. On the Go instance of package \<open>net\<close>, for an address that splits and whose
  host parses: when no entry of a non-empty resolver list matches the host's family,
  the first entry is substituted even if it does not parse. In particular
  \<open>strings.Split("", ",")\<close> is the one-element list of the empty string, on which
  \<open>replaceIP\<close> does not fail but returns \<open>":" + port\<close>; so when \<open>GetResolvers\<close>
  returns the empty string, the resolver closure dials \<open>":" + port\<close>.
\<close>

theorem fallback_unparsed_first_entry:
  assumes "SplitHostPort gonet address = Inr (orighost, port)"
    and "ParseIP gonet orighost = Some origip"
  shows "(\<forall>ips. ips \<noteq> [] \<and> ParseIP gonet (ips ! 0) = None \<and>
            (\<forall>x\<in>set ips. \<not> familyMatches gonet (To4 gonet origip \<noteq> None) x) \<longrightarrow>
          replaceIP gonet address ips = (JoinHostPort gonet (ips ! 0) port, None)) \<and>
    strings_Split [] CHR '','' = [''''] \<and>
    replaceIP gonet address [''''] = ('':'' @ port, None) \<and>
    (GetResolvers p (platform w) = ([], h) \<longrightarrow>
       resolverDialer dc gonet p d ctx network address w
         = dc d ctx network ('':'' @ port) (w\<lparr>platform := h\<rparr>))"
proof -
  have nm: "\<forall>x\<in>set ['''']. \<not> familyMatches gonet (To4 gonet origip \<noteq> None) x"
    by (simp add: familyMatches_def gonet_ParseIP_empty)
  have r: "replaceIP gonet address [''''] = ('':'' @ port, None)"
    using replaceIP_ok[OF _ assms, of "['''']"] scan_no_match[OF nm]
    by (simp add: gonet_JoinHostPort_empty)
  have g: "\<forall>ips. ips \<noteq> [] \<and> ParseIP gonet (ips ! 0) = None \<and>
            (\<forall>x\<in>set ips. \<not> familyMatches gonet (To4 gonet origip \<noteq> None) x) \<longrightarrow>
          replaceIP gonet address ips = (JoinHostPort gonet (ips ! 0) port, None)"
  proof (intro allI impI)
    fix ips
    assume a: "ips \<noteq> [] \<and> ParseIP gonet (ips ! 0) = None \<and>
            (\<forall>x\<in>set ips. \<not> familyMatches gonet (To4 gonet origip \<noteq> None) x)"
    then have "scan gonet ips (To4 gonet origip \<noteq> None) = []"
      by (simp add: scan_no_match)
    with a show "replaceIP gonet address ips = (JoinHostPort gonet (ips ! 0) port, None)"
      using replaceIP_ok[OF _ assms, of ips] by simp
  qed
  have dl: "GetResolvers p (platform w) = ([], h) \<longrightarrow>
       resolverDialer dc gonet p d ctx network address w
         = dc d ctx network ('':'' @ port) (w\<lparr>platform := h\<rparr>)"
  proof
    assume e: "GetResolvers p (platform w) = ([], h)"
    show "resolverDialer dc gonet p d ctx network address w
         = dc d ctx network ('':'' @ port) (w\<lparr>platform := h\<rparr>)"
      using resolverDialer_unfold[OF e, of dc gonet d ctx network address] r
      by (simp add: strings_Split_empty)
  qed
  from g strings_Split_empty r dl show ?thesis by blast
qed

theorem fallback_unparsed_first_entry_witness:
  "replaceIP gonet ''8.8.8.8:53'' [''bad'', ''2001:db8::1''] = (''bad:53'', None) \<and>
   replaceIP gonet ''8.8.8.8:53'' (strings_Split [] CHR '','') = ('':53'', None) \<and>
   resolverDialer recordingDial gonet (refusingProtector []) 0
       () ''udp'' ''8.8.8.8:53'' \<lparr>platform = [], errlog = []\<rparr>
     = ((Some (0, ''udp'', '':53''), None), \<lparr>platform = [], errlog = []\<rparr>)"
proof -
  let ?origip = "[0, 0, 0, 0, 0, 0, 0, 0, 0, 0, 255, 255, 8, 8, 8, 8] :: IP"
  let ?w = "\<lparr>platform = [] :: 32 word list, errlog = []\<rparr>"
  have h1: "SplitHostPort gonet ''8.8.8.8:53'' = Inr (''8.8.8.8'', ''53'')" by code_simp
  have h2: "ParseIP gonet ''8.8.8.8'' = Some ?origip" by code_simp
  have v4: "(To4 gonet ?origip \<noteq> None) = True" by code_simp
  have n1: "\<not> familyMatches gonet True ''bad''" by code_simp
  have n2: "\<not> familyMatches gonet True ''2001:db8::1''" by code_simp
  have pb: "ParseIP gonet ''bad'' = None" by code_simp
  have j: "JoinHostPort gonet ''bad'' ''53'' = ''bad:53''" by code_simp
  have gr: "GetResolvers (refusingProtector []) (platform ?w) = ([], [])"
    by (simp add: refusingProtector_def)
  note t = fallback_unparsed_first_entry[OF h1 h2,
      of "refusingProtector []" ?w "[]" recordingDial 0 "()" "''udp''"]
  have a: "replaceIP gonet ''8.8.8.8:53'' [''bad'', ''2001:db8::1''] = (''bad:53'', None)"
    using t n1 n2 pb j unfolding v4
    by (elim conjE allE[where x = "[''bad'', ''2001:db8::1'']"]) simp
  have b: "replaceIP gonet ''8.8.8.8:53'' (strings_Split [] CHR '','') = ('':53'', None)"
    using t by simp
  have c: "resolverDialer recordingDial gonet (refusingProtector []) 0
       () ''udp'' ''8.8.8.8:53'' ?w = ((Some (0, ''udp'', '':53''), None), ?w)"
    using t gr by (simp add: recordingDial_def)
  from a b c show ?thesis by (intro conjI)
qed

section \<open>The Go instance: splitting the rewritten address\<close>

text \<open>
  \<open>net.ParseIP\<close> accepts only decimal and hexadecimal digits, dots and colons; the
  lemmas below need of this only that an accepted string has no square bracket.
\<close>

lemma noBrackets_simps [simp]:
  "noBrackets []"
  "noBrackets (x # xs) = (x \<noteq> CHR ''['' \<and> x \<noteq> CHR '']'' \<and> noBrackets xs)"
  "noBrackets (xs @ ys) = (noBrackets xs \<and> noBrackets ys)"
  by (auto simp: noBrackets_def)

lemma noBrackets_take_drop: "noBrackets (take c s) \<Longrightarrow> noBrackets (drop c s) \<Longrightarrow> noBrackets s"
  using noBrackets_simps(3)[of "take c s" "drop c s"] by simp

lemma IndexByteString_None_iff: "IndexByteString s c = None \<longleftrightarrow> c \<notin> set s"
  by (induction s) auto

lemma IndexByteString_append_hit:
  "c \<notin> set xs \<Longrightarrow> IndexByteString (xs @ c # ys) c = Some (length xs)"
  by (induction xs) auto

lemma last_index_None_iff: "last_index s c = None \<longleftrightarrow> c \<notin> set s"
  by (induction s) (auto split: option.splits)

lemma last_index_append_hit:
  "c \<notin> set ys \<Longrightarrow> last_index (xs @ c # ys) c = Some (length xs)"
  by (induction xs) (auto simp: last_index_None_iff[THEN iffD2] split: option.splits)

lemma last_index_Some:
  "last_index s c = Some i \<Longrightarrow> i < length s \<and> s ! i = c \<and> c \<notin> set (drop (Suc i) s)"
proof (induction s arbitrary: i)
  case Nil then show ?case by simp
next
  case (Cons x xs)
  then show ?case
    by (cases "last_index xs c") (auto simp: last_index_None_iff split: if_splits)
qed

lemma dtoi_loop_digits:
  "dtoi_loop s n i = (m, c, True) \<Longrightarrow> i \<le> c \<and> noBrackets (take (c - i) s)"
proof (induction s arbitrary: n i)
  case Nil then show ?case by (simp split: if_splits)
next
  case (Cons x xs)
  show ?case
  proof (cases "byte CHR ''0'' \<le> byte x \<and> byte x \<le> byte CHR ''9''")
    case True
    then have x: "x \<noteq> CHR ''['' \<and> x \<noteq> CHR '']''" by (auto simp: byte_def)
    from Cons.prems True
    have "dtoi_loop xs (n * 10 + (byte x - byte CHR ''0'')) (i + 1) = (m, c, True)"
      by (simp add: Let_def split: if_splits)
    from Cons.IH[OF this] have le: "i + 1 \<le> c" and nb: "noBrackets (take (c - (i + 1)) xs)"
      by auto
    from le have e: "c - i = Suc (c - (i + 1))" by simp
    show ?thesis using x nb le by (simp add: e)
  next
    case False
    with Cons.prems show ?thesis by (auto split: if_splits)
  qed
qed

lemma xtoi_loop_digits:
  "xtoi_loop s n i = (m, c, True) \<Longrightarrow> i \<le> c \<and> noBrackets (take (c - i) s)"
proof (induction s arbitrary: n i)
  case Nil then show ?case by (simp split: if_splits)
next
  case (Cons x xs)
  show ?case
  proof (cases "(byte CHR ''0'' \<le> byte x \<and> byte x \<le> byte CHR ''9'') \<or>
                (byte CHR ''a'' \<le> byte x \<and> byte x \<le> byte CHR ''f'') \<or>
                (byte CHR ''A'' \<le> byte x \<and> byte x \<le> byte CHR ''F'')")
    case True
    then have x: "x \<noteq> CHR ''['' \<and> x \<noteq> CHR '']''" by (auto simp: byte_def)
    from Cons.prems True
    obtain n' where "xtoi_loop xs n' (i + 1) = (m, c, True)"
      by (auto simp: Let_def split: if_splits)
    from Cons.IH[OF this] have le: "i + 1 \<le> c" and nb: "noBrackets (take (c - (i + 1)) xs)"
      by auto
    from le have e: "c - i = Suc (c - (i + 1))" by simp
    show ?thesis using x nb le by (simp add: e)
  next
    case False
    with Cons.prems show ?thesis by (auto split: if_splits)
  qed
qed

lemma dtoi_digits: "dtoi s = (m, c, True) \<Longrightarrow> noBrackets (take c s)"
  using dtoi_loop_digits[of s 0 0 m c] by (simp add: dtoi_def)

lemma xtoi_digits: "xtoi s = (m, c, True) \<Longrightarrow> noBrackets (take c s)"
  using xtoi_loop_digits[of s 0 0 m c] by (simp add: xtoi_def)

lemma parseIPv4_loop_noBrackets:
  "parseIPv4_loop i s p = Some ip \<Longrightarrow> noBrackets s"
proof (induction i s p rule: parseIPv4_loop.induct)
  case (1 i s p)
  show ?case
  proof (cases "i < IPv4len")
    case False
    with "1.prems" show ?thesis
      by (subst (asm) parseIPv4_loop.simps) (simp split: if_splits)
  next
    case True
    define s1 where "s1 = (if i > 0 then drop 1 s else s)"
    obtain n c ok where d: "dtoi s1 = (n, c, ok)" by (cases "dtoi s1") auto
    from "1.prems" True have ne: "length s \<noteq> 0" and dot: "\<not> (i > 0 \<and> s ! 0 \<noteq> CHR ''.'')"
      and ok: "ok" and nn: "\<not> n > 0xFF" and lz: "\<not> (c > 1 \<and> s1 ! 0 = CHR ''0'')"
      and rec: "parseIPv4_loop (i + 1) (drop c s1) (p[i := of_int n]) = Some ip"
      by (subst (asm) parseIPv4_loop.simps;
          simp add: s1_def[symmetric] d Let_def split: if_splits)+
    have "noBrackets (drop c s1)"
      by (rule "1.IH"[OF True ne dot s1_def refl d[symmetric] refl _ lz rec])
         (use ok nn in simp)
    moreover have "noBrackets (take c s1)"
      using d ok by (auto dest: dtoi_digits)
    ultimately have n1: "noBrackets s1" by (rule noBrackets_take_drop[rotated])
    show ?thesis
    proof (cases "i > 0")
      case False
      with n1 show ?thesis by (simp add: s1_def)
    next
      case True
      with ne dot obtain t where t: "s = CHR ''.'' # t" by (cases s) auto
      from n1 True have "noBrackets t" by (simp add: s1_def t)
      then show ?thesis by (simp add: t)
    qed
  qed
qed

lemma parseIPv4_noBrackets: "parseIPv4 s = Some ip \<Longrightarrow> noBrackets s"
  unfolding parseIPv4_def by (rule parseIPv4_loop_noBrackets)

lemma drop_colon:
  "length s \<noteq> 0 \<Longrightarrow> s ! 0 = CHR '':'' \<Longrightarrow> noBrackets (drop 1 s) \<Longrightarrow> noBrackets s"
  by (cases s) auto

lemma parseIPv6_loop_unfold:
  assumes "i < IPv6len" and "xtoi s = (n, c, ok)"
  shows "parseIPv6_loop s i e ip =
    (if \<not> ok \<or> n > 0xFFFF then None
     else if c < length s \<and> s ! c = CHR ''.'' then
       (if e = None \<and> i \<noteq> IPv6len - IPv4len then None
        else if i + IPv4len > IPv6len then None
        else case parseIPv4 s of
               None \<Rightarrow> None
             | Some ip4 \<Rightarrow>
                 Some ([], i + IPv4len, e,
                       ip[i := ip4 ! 12, i + 1 := ip4 ! 13, i + 2 := ip4 ! 14, i + 3 := ip4 ! 15]))
     else if length (drop c s) = 0 then
       Some (drop c s, i + 2, e, ip[i := of_int (drop_bit 8 n), i + 1 := of_int n])
     else if drop c s ! 0 \<noteq> CHR '':'' \<or> length (drop c s) = 1 then None
     else if drop 1 (drop c s) ! 0 = CHR '':'' then
       (if e \<noteq> None then None
        else if length (drop 1 (drop 1 (drop c s))) = 0 then
          Some (drop 1 (drop 1 (drop c s)), i + 2, Some (i + 2),
                ip[i := of_int (drop_bit 8 n), i + 1 := of_int n])
        else parseIPv6_loop (drop 1 (drop 1 (drop c s))) (i + 2) (Some (i + 2))
               (ip[i := of_int (drop_bit 8 n), i + 1 := of_int n]))
     else parseIPv6_loop (drop 1 (drop c s)) (i + 2) e
            (ip[i := of_int (drop_bit 8 n), i + 1 := of_int n]))"
  by (subst parseIPv6_loop.simps) (simp add: assms Let_def)

lemma parseIPv6_loop_noBrackets:
  "parseIPv6_loop s i e ip = Some (s', r) \<Longrightarrow> noBrackets s' \<Longrightarrow> noBrackets s"
proof (induction "IPv6len - i" arbitrary: s i e ip rule: less_induct)
  case less
  note run = less.prems(1) and fin = less.prems(2)
  show ?case
  proof (cases "i < IPv6len")
    case False
    with run have "s' = s" by (subst (asm) parseIPv6_loop.simps) simp
    with fin show ?thesis by simp
  next
    case True
    obtain n c ok where x: "xtoi s = (n, c, ok)" by (cases "xtoi s") auto
    note eq = parseIPv6_loop_unfold[OF True x, of e ip]
    have nok: "\<not> (\<not> ok \<or> n > 0xFFFF)"
    proof
      assume "\<not> ok \<or> n > 0xFFFF"
      then have "parseIPv6_loop s i e ip = None" unfolding eq by (simp only: if_True)
      with run show False by simp
    qed
    then have ok: ok by simp
    from x ok have tk: "noBrackets (take c s)" by (auto dest: xtoi_digits)
    from True have smaller: "IPv6len - (i + 2) < IPv6len - i" by simp
    show ?thesis
    proof (cases "c < length s \<and> s ! c = CHR ''.''")
      case dotted: True
      have "parseIPv4 s \<noteq> None"
      proof
        assume "parseIPv4 s = None"
        then have "parseIPv6_loop s i e ip = None"
          unfolding eq using nok dotted by simp
        with run show False by simp
      qed
      then show ?thesis by (auto dest: parseIPv4_noBrackets)
    next
      case plain: False
      define s2 where "s2 = drop c s"
      define ip2 where "ip2 = ip[i := of_int (drop_bit 8 n), i + 1 := of_int n]"
      from run have body:
        "(if length s2 = 0 then Some (s2, i + 2, e, ip2)
          else if s2 ! 0 \<noteq> CHR '':'' \<or> length s2 = 1 then None
          else if drop 1 s2 ! 0 = CHR '':'' then
            (if e \<noteq> None then None
             else if length (drop 1 (drop 1 s2)) = 0
                  then Some (drop 1 (drop 1 s2), i + 2, Some (i + 2), ip2)
                  else parseIPv6_loop (drop 1 (drop 1 s2)) (i + 2) (Some (i + 2)) ip2)
          else parseIPv6_loop (drop 1 s2) (i + 2) e ip2) = Some (s', r)"
        unfolding eq s2_def ip2_def using nok plain by (simp only: if_False)
      have "noBrackets s2"
      proof (cases "length s2 = 0")
        case True
        then show ?thesis by simp
      next
        case ne2: False
        have g2: "\<not> (s2 ! 0 \<noteq> CHR '':'' \<or> length s2 = 1)"
        proof
          assume "s2 ! 0 \<noteq> CHR '':'' \<or> length s2 = 1"
          with body ne2 show False by (simp only: if_True if_False) simp
        qed
        then have c2: "s2 ! 0 = CHR '':''" and l2: "length s2 \<noteq> 1" by auto
        have "noBrackets (drop 1 s2)"
        proof (cases "drop 1 s2 ! 0 = CHR '':''")
          case False
          with body ne2 g2
          have "parseIPv6_loop (drop 1 s2) (i + 2) e ip2 = Some (s', r)"
            by (simp only: if_False)
          from less.hyps[OF smaller this fin] show ?thesis .
        next
          case cc: True
          from ne2 l2 have ne3: "length (drop 1 s2) \<noteq> 0" by (cases s2) auto
          have "noBrackets (drop 1 (drop 1 s2))"
          proof (cases "length (drop 1 (drop 1 s2)) = 0")
            case True
            then show ?thesis by simp
          next
            case ne4: False
            have en: "\<not> e \<noteq> None"
            proof
              assume "e \<noteq> None"
              with body ne2 g2 cc show False by (simp only: if_True if_False) simp
            qed
            with body ne2 g2 cc ne4
            have "parseIPv6_loop (drop 1 (drop 1 s2)) (i + 2) (Some (i + 2)) ip2 = Some (s', r)"
              by (simp only: if_True if_False simp_thms)
            from less.hyps[OF smaller this fin] show ?thesis .
          qed
          with ne3 cc show ?thesis by (rule drop_colon)
        qed
        with ne2 c2 show ?thesis by (rule drop_colon)
      qed
      with tk show ?thesis unfolding s2_def by (rule noBrackets_take_drop)
    qed
  qed
qed

lemma parseIPv6_noBrackets: "parseIPv6 s = Some ip \<Longrightarrow> noBrackets s"
proof -
  assume a: "parseIPv6 s = Some ip"
  show ?thesis
  proof (cases "length s \<ge> 2 \<and> s ! 0 = CHR '':'' \<and> s ! 1 = CHR '':''")
    case True
    then obtain t where t: "s = CHR '':'' # CHR '':'' # t"
      by (cases s; cases "tl s") auto
    show ?thesis
    proof (cases "t = []")
      case True
      with t show ?thesis by simp
    next
      case False
      with a t obtain s' i' e' ip' where
        "parseIPv6_loop t 0 (Some 0) (replicate IPv6len 0) = Some (s', i', e', ip')"
        "parseIPv6_finish s' i' e' ip' = Some ip"
        by (auto simp: parseIPv6_def Let_def split: option.splits)
      moreover from this(2) have "s' = []"
        by (auto simp: parseIPv6_finish_def split: if_splits)
      ultimately have "noBrackets t" by (auto dest: parseIPv6_loop_noBrackets)
      with t show ?thesis by simp
    qed
  next
    case False
    with a obtain s' i' e' ip' where
      "parseIPv6_loop s 0 None (replicate IPv6len 0) = Some (s', i', e', ip')"
      "parseIPv6_finish s' i' e' ip' = Some ip"
      by (auto simp: parseIPv6_def Let_def split: option.splits if_splits)
    moreover from this(2) have "s' = []"
      by (auto simp: parseIPv6_finish_def split: if_splits)
    ultimately show ?thesis by (auto dest: parseIPv6_loop_noBrackets)
  qed
qed

lemma ParseIP_loop_noBrackets: "ParseIP_loop s t = Some ip \<Longrightarrow> noBrackets s"
  by (induction t) (auto dest: parseIPv4_noBrackets parseIPv6_noBrackets split: if_splits)

lemma net_ParseIP_noBrackets: "net_ParseIP s = Some ip \<Longrightarrow> noBrackets s"
  unfolding net_ParseIP_def by (rule ParseIP_loop_noBrackets)

lemma IndexByteString_noBrackets:
  "noBrackets s \<Longrightarrow> IndexByteString s CHR ''['' = None \<and> IndexByteString s CHR '']'' = None"
  by (simp add: IndexByteString_None_iff noBrackets_def)

lemma net_SplitHostPort_JoinHostPort:
  assumes h: "noBrackets host" and p: "noBrackets port" and c: "CHR '':'' \<notin> set port"
  shows "net_SplitHostPort (net_JoinHostPort host port) = Inr (host, port)"
proof (cases "CHR '':'' \<in> set host")
  case True
  let ?hp = "''['' @ host @ '']:'' @ port"
  have j: "net_JoinHostPort host port = ?hp"
    using True by (simp add: net_JoinHostPort_def IndexByteString_None_iff)
  have "?hp = (CHR ''['' # host @ '']'') @ CHR '':'' # port" by simp
  then have li: "last_index ?hp CHR '':'' = Some (length host + 2)"
    using last_index_append_hit[OF c, of "CHR ''['' # host @ '']''"] by simp
  have "CHR '']'' \<notin> set (CHR ''['' # host)" using h by (simp add: noBrackets_def)
  from IndexByteString_append_hit[OF this, of "CHR '':'' # port"]
  have ix: "IndexByteString ?hp CHR '']'' = Some (length host + 1)" by simp
  have t1: "IndexByteString (drop 1 ?hp) CHR ''['' = None"
    using h p by (simp add: IndexByteString_None_iff noBrackets_def)
  have t2: "IndexByteString (drop (length host + 1 + 1) ?hp) CHR '']'' = None"
    using p by (simp add: IndexByteString_None_iff noBrackets_def)
  have hd0: "?hp ! 0 = CHR ''[''" by simp
  have hst: "drop 1 (take (length host + 1) ?hp) = host" by simp
  have prt: "drop (length host + 2 + 1) ?hp = port" by simp
  have len: "length host + 1 + 1 \<noteq> length ?hp" by simp
  show ?thesis
    unfolding j net_SplitHostPort_def li ix option.case hd0 hst splitTail_def t1 t2 prt
    using len by simp
next
  case False
  let ?hp = "host @ '':'' @ port"
  have j: "net_JoinHostPort host port = ?hp"
    using False by (simp add: net_JoinHostPort_def IndexByteString_None_iff)
  have li: "last_index ?hp CHR '':'' = Some (length host)"
    using last_index_append_hit[OF c, of host] by simp
  have hd0: "?hp ! 0 \<noteq> CHR ''[''"
    using h by (cases host) (auto simp: noBrackets_def)
  have hst: "take (length host) ?hp = host" by simp
  have nc: "IndexByteString host CHR '':'' = None"
    using False by (simp add: IndexByteString_None_iff)
  have t1: "IndexByteString (drop 0 ?hp) CHR ''['' = None"
    using h p by (simp add: IndexByteString_None_iff noBrackets_def)
  have t2: "IndexByteString (drop 0 ?hp) CHR '']'' = None"
    using h p by (simp add: IndexByteString_None_iff noBrackets_def)
  have prt: "drop (length host + 1) ?hp = port" by simp
  show ?thesis
    unfolding j net_SplitHostPort_def li option.case Let_def hst nc splitTail_def t1 t2 prt
    using hd0 by simp
qed

lemma net_SplitHostPort_port:
  assumes "net_SplitHostPort hostport = Inr (host, port)"
  shows "noBrackets port \<and> CHR '':'' \<notin> set port"
proof -
  from assms obtain i where li: "last_index hostport CHR '':'' = Some i"
    by (auto simp: net_SplitHostPort_def split: option.splits)
  from last_index_Some[OF li] have nc: "CHR '':'' \<notin> set (drop (Suc i) hostport)" by simp
  have "\<exists>h' j k. j \<le> Suc i \<and> k \<le> Suc i \<and>
          splitTail hostport h' i j k = Inr (host, port)"
  proof (cases "hostport ! 0 = CHR ''[''")
    case False
    with assms li have "splitTail hostport (take i hostport) i 0 0 = Inr (host, port)"
      by (simp add: net_SplitHostPort_def Let_def split: if_splits)
    moreover have "0 \<le> Suc i" by simp
    ultimately show ?thesis by blast
  next
    case True
    with assms li obtain e where "e + 1 = i"
      and "splitTail hostport (drop 1 (take e hostport)) i 1 (e + 1) = Inr (host, port)"
      by (auto simp: net_SplitHostPort_def split: option.splits if_splits)
    moreover from this(1) have "1 \<le> Suc i" "e + 1 \<le> Suc i" by simp_all
    ultimately show ?thesis by blast
  qed
  then obtain h' j k where jk: "j \<le> Suc i" "k \<le> Suc i"
    and st: "splitTail hostport h' i j k = Inr (host, port)" by blast
  from st have pt: "port = drop (Suc i) hostport"
    and b1: "CHR ''['' \<notin> set (drop j hostport)" and b2: "CHR '']'' \<notin> set (drop k hostport)"
    by (auto simp: splitTail_def IndexByteString_None_iff split: if_splits)
  from jk(1) have "set (drop (Suc i) hostport) \<subseteq> set (drop j hostport)"
    by (rule set_drop_subset_set_drop)
  moreover from jk(2) have "set (drop (Suc i) hostport) \<subseteq> set (drop k hostport)"
    by (rule set_drop_subset_set_drop)
  ultimately show ?thesis using b1 b2 nc pt by (auto simp: noBrackets_def)
qed

lemma gonet_fields:
  "ParseIP gonet = net_ParseIP" "To4 gonet = IP_To4"
  "SplitHostPort gonet = net_SplitHostPort" "JoinHostPort gonet = net_JoinHostPort"
  by (simp_all add: gonet_def)

lemma gonet_familyMatches_noBrackets: "familyMatches gonet wantV4 ip \<Longrightarrow> noBrackets ip"
  by (auto simp: familyMatches_def gonet_fields dest: net_ParseIP_noBrackets
        split: option.splits)

text \<open>
  On the Go instance the host and the port of the rewritten address are the ones
  \<open>net.SplitHostPort\<close> itself reads back, whenever the substituted entry is one that
  parses.
\<close>

lemma gonet_same_family_roundtrip:
  assumes sp: "SplitHostPort gonet addr = Inr (orighost, port)"
    and pa: "ParseIP gonet orighost = Some origip"
    and ips: "ips = pre @ ip # post"
    and pre: "\<forall>x\<in>set pre. \<not> familyMatches gonet (To4 gonet origip \<noteq> None) x"
    and ip: "familyMatches gonet (To4 gonet origip \<noteq> None) ip"
  shows "\<exists>r. replaceIP gonet addr ips = (r, None) \<and> SplitHostPort gonet r = Inr (ip, port)"
proof -
  have "ParseIP gonet [] = None" by (rule gonet_ParseIP_empty)
  from familyMatches_nonempty[OF this ip] have ne: "ip \<noteq> []" .
  have sc: "scan gonet ips (To4 gonet origip \<noteq> None) = ip"
    unfolding ips using pre ip by (rule scan_first)
  have "ips \<noteq> []" by (simp add: ips)
  from replaceIP_ok[OF this sp pa] sc ne
  have r: "replaceIP gonet addr ips = (net_JoinHostPort ip port, None)"
    by (simp add: gonet_fields)
  from sp have "noBrackets port \<and> CHR '':'' \<notin> set port"
    by (auto simp: gonet_fields dest: net_SplitHostPort_port)
  with gonet_familyMatches_noBrackets[OF ip]
  have "net_SplitHostPort (net_JoinHostPort ip port) = Inr (ip, port)"
    by (simp add: net_SplitHostPort_JoinHostPort)
  with r show ?thesis by (simp add: gonet_fields)
qed

text \<open>
  The fallback entry is not parsed. If it contains a bracket, the address that
  \<open>replaceIP\<close> returns is not one \<open>net.SplitHostPort\<close> accepts.
\<close>

lemma gonet_fallback_not_splittable:
  "replaceIP gonet ''8.8.8.8:53'' [''a]b''] = (''a]b:53'', None) \<and>
   SplitHostPort gonet ''a]b:53'' = Inl (AddrError ''unexpected ']' in address'' ''a]b:53'')"
  by code_simp

end
